theory Spec2Isabelle
  imports Complex_Main "HOL-Library.Char_ord" "HOL-Library.List_Lexorder"
begin

section \<open>Customer 360 dashboard: segmentation, at-risk list and guarded aggregation\<close>

text \<open>
  The development embeds the decision logic of \<^verbatim>\<open>SNOWFLAKE_CUSTOMER360_APP.py\<close>:
  the per-customer aggregation and the nested \<^verbatim>\<open>categorize_customer\<close> of
  \<^verbatim>\<open>show_ai_insights\<close>, the at-risk filter, the guarded summary block of the same
  function and \<^verbatim>\<open>search_customers\<close> with its caller. Charts, styling and the text of the mock
  insight are presentation and are left out.
\<close>

subsection \<open>Values\<close>

text \<open>
  A float as the code compares it: a finite double is the real number it denotes, and a
  comparison with a threshold is the comparison of the two numbers. \<open>NaN\<close> is what
  pandas' \<^verbatim>\<open>mean()\<close> gives on an empty column and what numpy gives for
  \<^verbatim>\<open>0/0\<close>; every ordering comparison with \<open>NaN\<close> is false, as in Python.
\<close>

datatype fl = Num real | NaN | PosInf

fun fl_lt :: "fl \<Rightarrow> real \<Rightarrow> bool" where
  "fl_lt (Num x) t = (x < t)"
| "fl_lt NaN t = False"
| "fl_lt PosInf t = False"

fun fl_gt :: "fl \<Rightarrow> real \<Rightarrow> bool" where
  "fl_gt (Num x) t = (x > t)"
| "fl_gt NaN t = False"
| "fl_gt PosInf t = True"

text \<open>
  Exceptions the modelled code can meet. All are subclasses of Python's \<^verbatim>\<open>Exception\<close>,
  so both \<^verbatim>\<open>except Exception\<close> (line 642) and the bare \<^verbatim>\<open>except:\<close> (line 164)
  catch every one of them.
\<close>

datatype py_exc = ZeroDivisionError | KeyError | SnowparkSQLException | RuntimeError

subsection \<open>Records of the warehouse table\<close>

text \<open>
  Modelled from the spec: the schema of the table \<^verbatim>\<open>FLATTENED_EMAIL_INTELLIGENCE\<close> is not
  in the source; the columns read by the modelled code are taken from the spec's
  CommunicationRecord (section 3), each column typed and without nulls: identifier,
  customer identifier, display name, classification label, sentiment score, escalation
  flag and response urgency.
\<close>

record email =
  EMAIL_ID :: string
  CUSTOMER_ID :: string
  CUSTOMER_NAME :: string
  EMAIL_CLASSIFICATION :: string
  SENTIMENT_SCORE :: real
  ESCALATION_NEEDED :: bool
  RESPONSE_URGENCY :: string

text \<open>
  One row of \<^verbatim>\<open>customer_segments\<close> after the columns are renamed at line 656.
\<close>

record segment_row =
  SEG_CUSTOMER_ID :: string
  AVG_SENTIMENT :: fl
  TOTAL_ESCALATIONS :: nat
  TOTAL_EMAILS :: nat
  URGENT_EMAILS :: nat

subsection \<open>Segmentation (lines 659-667)\<close>

text \<open>
  The four labels are the strings the code returns; the leading emoji of each is written
  as its four UTF-8 bytes.
\<close>

definition label_high_risk :: string where
  "label_high_risk = [CHR 0xF0, CHR 0x9F, CHR 0x94, CHR 0xB4] @ '' High Risk''"

definition label_champions :: string where
  "label_champions = [CHR 0xF0, CHR 0x9F, CHR 0x9F, CHR 0xA2] @ '' Champions''"

definition label_needs_attention :: string where
  "label_needs_attention = [CHR 0xF0, CHR 0x9F, CHR 0x9F, CHR 0xA1] @ '' Needs Attention''"

definition label_standard :: string where
  "label_standard = [CHR 0xF0, CHR 0x9F, CHR 0x94, CHR 0xB5] @ '' Standard''"

definition categorize_customer :: "segment_row \<Rightarrow> string" where
  "categorize_customer row =
     (if TOTAL_ESCALATIONS row > 2 \<or> fl_lt (AVG_SENTIMENT row) (-0.3) then label_high_risk
      else if fl_gt (AVG_SENTIMENT row) 0.3 \<and> TOTAL_ESCALATIONS row = 0 then label_champions
      else if URGENT_EMAILS row > 1 then label_needs_attention
      else label_standard)"

text \<open>
  The spec's reading of the rule (section 4.1), kept apart from the code: a segment type,
  the four rules as an ordered list of guarded outcomes, and first match wins.
\<close>

datatype segment = HighRisk | Champion | NeedsAttention | Standard

fun segment_label :: "segment \<Rightarrow> string" where
  "segment_label HighRisk = label_high_risk"
| "segment_label Champion = label_champions"
| "segment_label NeedsAttention = label_needs_attention"
| "segment_label Standard = label_standard"

definition spec_rules :: "real \<Rightarrow> nat \<Rightarrow> nat \<Rightarrow> (bool \<times> segment) list" where
  "spec_rules s e u =
     [(e > 2 \<or> s < -0.3, HighRisk),
      (s > 0.3 \<and> e = 0, Champion),
      (u > 1, NeedsAttention)]"

fun first_match :: "(bool \<times> segment) list \<Rightarrow> segment" where
  "first_match [] = Standard"
| "first_match ((g, seg) # rs) = (if g then seg else first_match rs)"

definition spec_segment :: "real \<Rightarrow> nat \<Rightarrow> nat \<Rightarrow> segment" where
  "spec_segment s e u = first_match (spec_rules s e u)"

definition segment_labels :: "string list" where
  "segment_labels = [label_high_risk, label_champions, label_needs_attention, label_standard]"

subsection \<open>Per-customer aggregation (lines 649-656)\<close>

text \<open>
  pandas' \<^verbatim>\<open>mean\<close> of a column: \<open>NaN\<close> on an empty column, and on a non-empty
  column of finite doubles the double that pandas' float summation and division arrive
  at. That double is in general not the exact mean of the entries (for the scores -1.0,
  0.3, 0.7 it is 0.0, the exact mean of the three doubles being slightly negative), and
  the routine that computes it is library code outside the source: the float mean of a
  non-empty column is the parameter \<open>fmean\<close> of everything that aggregates scores.
\<close>

definition series_mean :: "(real list \<Rightarrow> real) \<Rightarrow> real list \<Rightarrow> fl" where
  "series_mean fmean xs = (if xs = [] then NaN else Num (fmean xs))"

text \<open>
  The mean without rounding. It is the float mean on the columns of the sample records
  below, whose entries, sums and quotients are all exactly representable.
\<close>

definition mean_exact :: "real list \<Rightarrow> real" where
  "mean_exact xs = sum_list xs / real (length xs)"

text \<open>pandas' \<^verbatim>\<open>sum\<close> of a boolean column: the number of true entries.\<close>

definition bool_sum :: "bool list \<Rightarrow> nat" where
  "bool_sum bs = length (filter (\<lambda>b. b) bs)"

text \<open>
  \<^verbatim>\<open>email_data.groupby('CUSTOMER_ID')\<close> with pandas' defaults: one group per distinct
  key, the groups in ascending key order (\<^verbatim>\<open>sort=True\<close> is the default and the code
  does not override it), each group holding the rows of its key in their original order.
  Python orders strings by code point, which on UTF-8 bytes is the lexicographic order of
  the characters.
\<close>

definition groupby_CUSTOMER_ID :: "email list \<Rightarrow> (string \<times> email list) list" where
  "groupby_CUSTOMER_ID df =
     map (\<lambda>k. (k, filter (\<lambda>r. CUSTOMER_ID r = k) df)) (sort (remdups (map CUSTOMER_ID df)))"

text \<open>
  The four aggregations of the \<^verbatim>\<open>agg\<close> dictionary, then \<^verbatim>\<open>reset_index\<close> and the
  renaming of the columns. \<^verbatim>\<open>count\<close> counts the non-null entries of \<^verbatim>\<open>EMAIL_ID\<close>,
  which are all entries of the group in this schema.
\<close>

definition agg_group :: "(real list \<Rightarrow> real) \<Rightarrow> string \<times> email list \<Rightarrow> segment_row" where
  "agg_group fmean g =
     \<lparr>SEG_CUSTOMER_ID = fst g,
      AVG_SENTIMENT = series_mean fmean (map SENTIMENT_SCORE (snd g)),
      TOTAL_ESCALATIONS = bool_sum (map ESCALATION_NEEDED (snd g)),
      TOTAL_EMAILS = length (map EMAIL_ID (snd g)),
      URGENT_EMAILS = bool_sum (map (\<lambda>x. x = ''immediate'') (map RESPONSE_URGENCY (snd g)))\<rparr>"

definition customer_segments :: "(real list \<Rightarrow> real) \<Rightarrow> email list \<Rightarrow> segment_row list" where
  "customer_segments fmean df = map (agg_group fmean) (groupby_CUSTOMER_ID df)"

subsection \<open>At-risk customers (lines 704-707)\<close>

definition at_risk_mask :: "segment_row \<Rightarrow> bool" where
  "at_risk_mask row = (fl_lt (AVG_SENTIMENT row) 0 \<or> TOTAL_ESCALATIONS row > 1)"

definition at_risk_customers :: "segment_row list \<Rightarrow> string list" where
  "at_risk_customers segs = map SEG_CUSTOMER_ID (filter at_risk_mask segs)"

text \<open>
  The spec's reading of the output order (section 4.2), kept apart from the code: the
  customers in the order in which each is first met in the record set.
\<close>

definition encounter_order :: "email list \<Rightarrow> string list" where
  "encounter_order df = rev (remdups (rev (map CUSTOMER_ID df)))"

definition spec_at_risk_in_encounter_order ::
  "(real list \<Rightarrow> real) \<Rightarrow> email list \<Rightarrow> string list" where
  "spec_at_risk_in_encounter_order fmean df =
     filter (\<lambda>k. k \<in> set (at_risk_customers (customer_segments fmean df)))
       (encounter_order df)"

text \<open>A customer's records and the number of its escalations, read off the record set.\<close>

definition emails_of :: "email list \<Rightarrow> string \<Rightarrow> email list" where
  "emails_of df k = filter (\<lambda>r. CUSTOMER_ID r = k) df"

definition escalations_of :: "email list \<Rightarrow> string \<Rightarrow> nat" where
  "escalations_of df k = length (filter ESCALATION_NEEDED (emails_of df k))"

subsection \<open>Division\<close>

text \<open>
  Python's \<^verbatim>\<open>/\<close> on two Python numbers raises on a zero divisor; on a numpy scalar it
  returns \<open>NaN\<close> for \<open>0/0\<close> and infinity for a positive numerator. Which of the two
  the summary block of \<^verbatim>\<open>show_ai_insights\<close> meets depends on the scalar type pandas'
  \<^verbatim>\<open>sum\<close> hands back for the column, which the source does not fix: there the
  division is the parameter \<open>truediv\<close>, and the two functions below are its two
  candidates.
\<close>

definition py_truediv :: "nat \<Rightarrow> nat \<Rightarrow> py_exc + fl" where
  "py_truediv a b = (if b = 0 then Inl ZeroDivisionError else Inr (Num (real a / real b)))"

definition np_truediv :: "nat \<Rightarrow> nat \<Rightarrow> py_exc + fl" where
  "np_truediv a b =
     (if b = 0 then Inr (if a = 0 then NaN else PosInf) else Inr (Num (real a / real b)))"

fun fl_times :: "fl \<Rightarrow> real \<Rightarrow> fl" where
  "fl_times (Num x) c = Num (x * c)"
| "fl_times NaN c = NaN"
| "fl_times PosInf c = PosInf"

subsection \<open>The guarded summary block of the AI insights page (lines 593-643)\<close>

text \<open>
  The dictionary built at lines 596-602, without \<^verbatim>\<open>top_issues\<close> (a table of counts
  that no modelled decision reads). The prompt of lines 604-617 is built and never sent:
  the code makes no completion call and renders a fixed text instead.
\<close>

record summary_data =
  total_emails :: nat
  avg_sentiment :: fl
  escalation_rate :: fl
  urgent_responses :: nat

definition build_summary_data ::
  "(real list \<Rightarrow> real) \<Rightarrow> (nat \<Rightarrow> nat \<Rightarrow> py_exc + fl) \<Rightarrow> email list
     \<Rightarrow> py_exc + summary_data" where
  "build_summary_data fmean truediv df =
     (case truediv (bool_sum (map ESCALATION_NEEDED df)) (length df) of
        Inl e \<Rightarrow> Inl e
      | Inr q \<Rightarrow>
          Inr \<lparr>total_emails = length df,
               avg_sentiment = series_mean fmean (map SENTIMENT_SCORE df),
               escalation_rate = fl_times q 100,
               urgent_responses = length (filter (\<lambda>r. RESPONSE_URGENCY r = ''immediate'') df)\<rparr>)"

text \<open>What the block hands to the page: the fixed insight text, or an info box.\<close>

datatype st_call = St_markdown_ai_insights | St_info string

definition try_except :: "(py_exc + 'a) \<Rightarrow> (py_exc \<Rightarrow> py_exc + 'a) \<Rightarrow> py_exc + 'a" where
  "try_except body handler = (case body of Inl e \<Rightarrow> handler e | Inr v \<Rightarrow> Inr v)"

definition info_unavailable :: string where
  "info_unavailable = ''AI analysis temporarily unavailable. Showing manual insights.''"

text \<open>
  The \<^verbatim>\<open>try\<close> of line 594 with its handler of lines 642-643, around whatever the body
  does: a raised exception is replaced by the info box.
\<close>

definition guarded_block :: "(py_exc + st_call) \<Rightarrow> py_exc + st_call" where
  "guarded_block body = try_except body (\<lambda>e. Inr (St_info info_unavailable))"

text \<open>The body as the code has it: the summary, then the fixed insight text.\<close>

definition ai_summary_body ::
  "(real list \<Rightarrow> real) \<Rightarrow> (nat \<Rightarrow> nat \<Rightarrow> py_exc + fl) \<Rightarrow> email list
     \<Rightarrow> py_exc + st_call" where
  "ai_summary_body fmean truediv df =
     (case build_summary_data fmean truediv df of
        Inl e \<Rightarrow> Inl e
      | Inr summary \<Rightarrow> Inr St_markdown_ai_insights)"

definition ai_summary_block ::
  "(real list \<Rightarrow> real) \<Rightarrow> (nat \<Rightarrow> nat \<Rightarrow> py_exc + fl) \<Rightarrow> email list
     \<Rightarrow> py_exc + st_call" where
  "ai_summary_block fmean truediv df = guarded_block (ai_summary_body fmean truediv df)"

text \<open>
  The page as a value: the message of the guarded block, then the segment table and the
  at-risk list, which are computed after the block from the record set alone. What pandas
  does past the block with a table of no rows (\<^verbatim>\<open>apply\<close> and the column
  assignment of line 669) is not modelled: the statements about the page are made for
  non-empty record sets.
\<close>

record ai_page =
  summary_message :: st_call
  segments :: "(segment_row \<times> string) list"
  at_risk :: "string list"

definition show_ai_insights ::
  "(real list \<Rightarrow> real) \<Rightarrow> (nat \<Rightarrow> nat \<Rightarrow> py_exc + fl) \<Rightarrow> email list
     \<Rightarrow> py_exc + ai_page" where
  "show_ai_insights fmean truediv df =
     (case ai_summary_block fmean truediv df of
        Inl e \<Rightarrow> Inl e
      | Inr msg \<Rightarrow>
          Inr \<lparr>summary_message = msg,
               segments =
                 map (\<lambda>row. (row, categorize_customer row)) (customer_segments fmean df),
               at_risk = at_risk_customers (customer_segments fmean df)\<rparr>)"

subsection \<open>Customer search (lines 143-165 and 381-403)\<close>

text \<open>A table: its column names and its rows of cells.\<close>

record dataframe =
  columns :: "string list"
  rows :: "string list list"

definition pd_DataFrame :: dataframe where
  "pd_DataFrame = \<lparr>columns = [], rows = []\<rparr>"

text \<open>pandas' \<^verbatim>\<open>empty\<close>: some axis has length zero.\<close>

definition df_empty :: "dataframe \<Rightarrow> bool" where
  "df_empty d = (columns d = [] \<or> rows d = [])"

definition unlines :: "string list \<Rightarrow> string" where
  "unlines ls = concat (map (\<lambda>l. l @ [CHR 0x0A]) ls)"

text \<open>The query text of the f-string, the search term spliced in three times.\<close>

definition search_query :: "string \<Rightarrow> string" where
  "search_query search_term =
     [CHR 0x0A] @ unlines
       [''        SELECT '',
        ''            EMAIL_ID,'',
        ''            CUSTOMER_ID,'',
        ''            CUSTOMER_NAME,'',
        ''            EMAIL_CLASSIFICATION,'',
        ''            SENTIMENT_CATEGORY,'',
        ''            EXECUTIVE_SUMMARY,'',
        ''            DATE_RECEIVED'',
        ''        FROM '' @ [CHR 0x22] @ ''2025-06-23T16-21_EXPORT'' @ [CHR 0x22],
        ''        WHERE '',
        ''            CUSTOMER_NAME ILIKE '' @ [CHR 0x27] @ ''%'' @ search_term @ ''%''
           @ [CHR 0x27] @ '' '',
        ''            OR CUSTOMER_ID ILIKE '' @ [CHR 0x27] @ ''%'' @ search_term @ ''%''
           @ [CHR 0x27],
        ''            OR EMAIL_CONTENTS ILIKE '' @ [CHR 0x27] @ ''%'' @ search_term @ ''%''
           @ [CHR 0x27],
        ''        ORDER BY DATE_RECEIVED DESC'',
        ''        LIMIT 10''] @ ''        ''"

text \<open>
  The warehouse is a parameter: \<open>session_sql q\<close> is the outcome of
  \<^verbatim>\<open>session.sql(q).to_pandas()\<close>, a table or a raised exception.
\<close>

definition search_customers :: "(string \<Rightarrow> py_exc + dataframe) \<Rightarrow> string \<Rightarrow> dataframe" where
  "search_customers session_sql search_term =
     (case session_sql (search_query search_term) of
        Inl e \<Rightarrow> pd_DataFrame
      | Inr d \<Rightarrow> d)"

text \<open>What \<^verbatim>\<open>show_customer_search\<close> does with the result (lines 381-403).\<close>

datatype search_view = No_search | Found nat "string list list" | Info_no_results

definition show_customer_search :: "(string \<Rightarrow> py_exc + dataframe) \<Rightarrow> string \<Rightarrow> search_view" where
  "show_customer_search session_sql search_term =
     (if search_term = [] then No_search
      else let search_results = search_customers session_sql search_term
           in if \<not> df_empty search_results
              then Found (length (rows search_results)) (rows search_results)
              else Info_no_results)"

subsection \<open>Sample records\<close>

text \<open>A record with the given identifier, customer, score, escalation flag and urgency.\<close>

definition sample_email :: "string \<Rightarrow> string \<Rightarrow> real \<Rightarrow> bool \<Rightarrow> string \<Rightarrow> email" where
  "sample_email i k s e u =
     \<lparr>EMAIL_ID = i, CUSTOMER_ID = k, CUSTOMER_NAME = k, EMAIL_CLASSIFICATION = ''Complaint'',
      SENTIMENT_SCORE = s, ESCALATION_NEEDED = e, RESPONSE_URGENCY = u\<rparr>"

subsection \<open>Properties of the segmentation\<close>

lemma labels_distinct: "distinct segment_labels"
  by (simp add: segment_labels_def label_high_risk_def label_champions_def
      label_needs_attention_def label_standard_def)

lemma segment_label_inj: "segment_label a = segment_label b \<Longrightarrow> a = b"
  using labels_distinct by (cases a; cases b) (auto simp: segment_labels_def)

text \<open>
  C1. For every aggregate with a real average sentiment, the code's result is the label of
  the segment that the spec's four ordered rules select with first match winning: HighRisk
  if escalations > 2 or sentiment < -0.3, otherwise Champion if sentiment > 0.3 and
  escalations = 0, otherwise NeedsAttention if urgent count > 1, otherwise Standard. The
  aggregate (0.5, 0 escalations, 3 urgent) is a Champion.
\<close>

theorem categorize_customer_ordered_rules:
  "categorize_customer
      \<lparr>SEG_CUSTOMER_ID = c, AVG_SENTIMENT = Num s, TOTAL_ESCALATIONS = e,
       TOTAL_EMAILS = n, URGENT_EMAILS = u\<rparr>
     = segment_label (spec_segment s e u)
   \<and> spec_segment s e u =
       (if e > 2 \<or> s < -0.3 then HighRisk
        else if s > 0.3 \<and> e = 0 then Champion
        else if u > 1 then NeedsAttention
        else Standard)
   \<and> categorize_customer
      \<lparr>SEG_CUSTOMER_ID = c, AVG_SENTIMENT = Num 0.5, TOTAL_ESCALATIONS = 0,
       TOTAL_EMAILS = n, URGENT_EMAILS = 3\<rparr> = label_champions"
  by (simp add: categorize_customer_def spec_segment_def spec_rules_def)

theorem categorize_customer_ordered_rules_witness:
  "categorize_customer
      \<lparr>SEG_CUSTOMER_ID = ''C001'', AVG_SENTIMENT = Num 0.5, TOTAL_ESCALATIONS = 0,
       TOTAL_EMAILS = 4, URGENT_EMAILS = 3\<rparr> = label_champions
   \<and> spec_segment 0.5 0 3 = Champion
   \<and> label_champions \<noteq> label_needs_attention"
  using categorize_customer_ordered_rules [of "''C001''" "0.5" 0 4 3] labels_distinct
  by (simp add: segment_labels_def)

lemma label_facts:
  "label_high_risk \<noteq> label_champions" "label_high_risk \<noteq> label_needs_attention"
  "label_high_risk \<noteq> label_standard" "label_champions \<noteq> label_needs_attention"
  "label_champions \<noteq> label_standard" "label_needs_attention \<noteq> label_standard"
  using labels_distinct by (auto simp: segment_labels_def)

text \<open>
  C2. The thresholds are strict. At an average sentiment of exactly -0.3 the sentiment
  clause does not fire: the aggregate is HighRisk only through more than 2 escalations.
  At exactly 0.3 the aggregate is never a Champion. At exactly 2 escalations the
  escalation clause does not fire: the aggregate is HighRisk only through a sentiment
  below -0.3.
\<close>

theorem categorize_customer_strict_thresholds:
  "(categorize_customer
      \<lparr>SEG_CUSTOMER_ID = c, AVG_SENTIMENT = Num (-0.3), TOTAL_ESCALATIONS = e,
       TOTAL_EMAILS = n, URGENT_EMAILS = u\<rparr> = label_high_risk) = (e > 2)
   \<and> categorize_customer
      \<lparr>SEG_CUSTOMER_ID = c, AVG_SENTIMENT = Num 0.3, TOTAL_ESCALATIONS = e,
       TOTAL_EMAILS = n, URGENT_EMAILS = u\<rparr> \<noteq> label_champions
   \<and> (categorize_customer
      \<lparr>SEG_CUSTOMER_ID = c, AVG_SENTIMENT = Num s, TOTAL_ESCALATIONS = 2,
       TOTAL_EMAILS = n, URGENT_EMAILS = u\<rparr> = label_high_risk) = (s < -0.3)"
  using label_facts by (simp add: categorize_customer_def)

theorem categorize_customer_strict_thresholds_witness:
  "categorize_customer
      \<lparr>SEG_CUSTOMER_ID = ''C001'', AVG_SENTIMENT = Num (-0.3), TOTAL_ESCALATIONS = 2,
       TOTAL_EMAILS = 5, URGENT_EMAILS = 0\<rparr> \<noteq> label_high_risk
   \<and> categorize_customer
      \<lparr>SEG_CUSTOMER_ID = ''C001'', AVG_SENTIMENT = Num 0.3, TOTAL_ESCALATIONS = 2,
       TOTAL_EMAILS = 5, URGENT_EMAILS = 0\<rparr> \<noteq> label_champions"
  using categorize_customer_strict_thresholds [of "''C001''" 2 5 0 "-0.3"] by simp

text \<open>
  C6. Every aggregate, whatever its fields (a \<open>NaN\<close> average included), is given exactly one
  of the four segments: there is one and only one segment whose label the code returns.
\<close>

theorem categorize_customer_exactly_one_segment:
  "\<exists>!seg. categorize_customer row = segment_label seg"
proof -
  have "\<exists>seg. categorize_customer row = segment_label seg"
  proof -
    have "categorize_customer row = segment_label HighRisk
        \<or> categorize_customer row = segment_label Champion
        \<or> categorize_customer row = segment_label NeedsAttention
        \<or> categorize_customer row = segment_label Standard"
      by (simp add: categorize_customer_def)
    then show ?thesis by blast
  qed
  then show ?thesis using segment_label_inj by metis
qed

theorem categorize_customer_exactly_one_segment_witness:
  "\<exists>!seg. categorize_customer
      \<lparr>SEG_CUSTOMER_ID = ''C001'', AVG_SENTIMENT = NaN, TOTAL_ESCALATIONS = 0,
       TOTAL_EMAILS = 0, URGENT_EMAILS = 0\<rparr> = segment_label seg"
  using categorize_customer_exactly_one_segment
    [of "\<lparr>SEG_CUSTOMER_ID = ''C001'', AVG_SENTIMENT = NaN, TOTAL_ESCALATIONS = 0,
       TOTAL_EMAILS = 0, URGENT_EMAILS = 0\<rparr>"] by simp

text \<open>
  C5. The at-risk condition is strictly looser than the HighRisk condition: every aggregate
  the code labels HighRisk passes the at-risk mask, and the aggregate with average
  sentiment -0.1 and no escalations passes the mask without being HighRisk.
\<close>

theorem at_risk_looser_than_high_risk:
  "(categorize_customer row = label_high_risk \<longrightarrow> at_risk_mask row)
   \<and> at_risk_mask \<lparr>SEG_CUSTOMER_ID = c, AVG_SENTIMENT = Num (-0.1), TOTAL_ESCALATIONS = 0,
       TOTAL_EMAILS = n, URGENT_EMAILS = u\<rparr>
   \<and> categorize_customer \<lparr>SEG_CUSTOMER_ID = c, AVG_SENTIMENT = Num (-0.1),
       TOTAL_ESCALATIONS = 0, TOTAL_EMAILS = n, URGENT_EMAILS = u\<rparr> \<noteq> label_high_risk"
proof (intro conjI impI)
  assume hr: "categorize_customer row = label_high_risk"
  have "TOTAL_ESCALATIONS row > 2 \<or> fl_lt (AVG_SENTIMENT row) (-0.3)"
    using hr label_facts by (auto simp: categorize_customer_def split: if_splits)
  moreover have "fl_lt (AVG_SENTIMENT row) (-0.3) \<Longrightarrow> fl_lt (AVG_SENTIMENT row) 0"
    by (cases "AVG_SENTIMENT row") auto
  ultimately show "at_risk_mask row" by (auto simp: at_risk_mask_def)
next
  show "at_risk_mask \<lparr>SEG_CUSTOMER_ID = c, AVG_SENTIMENT = Num (-0.1), TOTAL_ESCALATIONS = 0,
       TOTAL_EMAILS = n, URGENT_EMAILS = u\<rparr>"
    by (simp add: at_risk_mask_def)
next
  show "categorize_customer \<lparr>SEG_CUSTOMER_ID = c, AVG_SENTIMENT = Num (-0.1),
       TOTAL_ESCALATIONS = 0, TOTAL_EMAILS = n, URGENT_EMAILS = u\<rparr> \<noteq> label_high_risk"
    using label_facts by (simp add: categorize_customer_def)
qed

theorem at_risk_looser_than_high_risk_witness:
  "categorize_customer \<lparr>SEG_CUSTOMER_ID = ''C001'', AVG_SENTIMENT = Num (-0.5),
       TOTAL_ESCALATIONS = 0, TOTAL_EMAILS = 2, URGENT_EMAILS = 0\<rparr> = label_high_risk
   \<and> at_risk_mask \<lparr>SEG_CUSTOMER_ID = ''C001'', AVG_SENTIMENT = Num (-0.5),
       TOTAL_ESCALATIONS = 0, TOTAL_EMAILS = 2, URGENT_EMAILS = 0\<rparr>"
  using at_risk_looser_than_high_risk
    [of "\<lparr>SEG_CUSTOMER_ID = ''C001'', AVG_SENTIMENT = Num (-0.5),
       TOTAL_ESCALATIONS = 0, TOTAL_EMAILS = 2, URGENT_EMAILS = 0\<rparr>"]
  by (simp add: categorize_customer_def)


subsection \<open>Properties of the per-customer aggregation\<close>

lemma segment_ids:
  "map SEG_CUSTOMER_ID (customer_segments fmean df) = sort (remdups (map CUSTOMER_ID df))"
  by (simp add: customer_segments_def groupby_CUSTOMER_ID_def agg_group_def comp_def)

lemma agg_group_id: "SEG_CUSTOMER_ID (agg_group fmean g) = fst g"
  by (simp add: agg_group_def)

lemma segments_as_map:
  "customer_segments fmean df =
     map (\<lambda>k. agg_group fmean (k, emails_of df k)) (sort (remdups (map CUSTOMER_ID df)))"
  by (simp add: customer_segments_def groupby_CUSTOMER_ID_def comp_def emails_of_def)

lemma at_risk_as_filter:
  "at_risk_customers (customer_segments fmean df) =
     filter (\<lambda>k. at_risk_mask (agg_group fmean (k, emails_of df k)))
       (sort (remdups (map CUSTOMER_ID df)))"
  by (simp add: at_risk_customers_def segments_as_map filter_map comp_def agg_group_id)

lemma emails_of_nonempty: "k \<in> CUSTOMER_ID ` set df \<Longrightarrow> emails_of df k \<noteq> []"
  by (auto simp: emails_of_def filter_empty_conv)

lemma segment_row_of_id:
  assumes "row \<in> set (customer_segments fmean df)"
  shows "SEG_CUSTOMER_ID row \<in> CUSTOMER_ID ` set df
    \<and> row = agg_group fmean (SEG_CUSTOMER_ID row, emails_of df (SEG_CUSTOMER_ID row))"
  using assms by (auto simp: segments_as_map agg_group_id)

lemma row_with_id_iff:
  "(\<exists>row \<in> set (customer_segments fmean df). SEG_CUSTOMER_ID row = k \<and> P row)
     \<longleftrightarrow> k \<in> CUSTOMER_ID ` set df \<and> P (agg_group fmean (k, emails_of df k))"
proof
  assume "\<exists>row \<in> set (customer_segments fmean df). SEG_CUSTOMER_ID row = k \<and> P row"
  then obtain row where r: "row \<in> set (customer_segments fmean df)"
    and k: "SEG_CUSTOMER_ID row = k" and p: "P row" by blast
  from segment_row_of_id [OF r] k p
  show "k \<in> CUSTOMER_ID ` set df \<and> P (agg_group fmean (k, emails_of df k))" by simp
next
  assume a: "k \<in> CUSTOMER_ID ` set df \<and> P (agg_group fmean (k, emails_of df k))"
  then have "agg_group fmean (k, emails_of df k) \<in> set (customer_segments fmean df)"
    by (auto simp: segments_as_map)
  then show "\<exists>row \<in> set (customer_segments fmean df). SEG_CUSTOMER_ID row = k \<and> P row"
    using a agg_group_id by fastforce
qed

lemmas pipeline_defs =
  sample_email_def at_risk_customers_def customer_segments_def groupby_CUSTOMER_ID_def
  agg_group_def series_mean_def mean_exact_def bool_sum_def at_risk_mask_def

text \<open>
  C4. A customer identifier is in the at-risk list exactly when the grouped table has a row
  of that customer whose average sentiment is below 0 or whose escalations number more
  than 1. The table has one row per customer, and that row holds the float mean of the
  customer's scores and the count of the customer's escalations. An aggregate with
  average -0.01 and no escalation passes the test, and so does one with average 0.5 and
  2 escalations.
\<close>

theorem at_risk_customers_iff:
  "(k \<in> set (at_risk_customers (customer_segments fmean df))
      \<longleftrightarrow> (\<exists>row \<in> set (customer_segments fmean df).
             SEG_CUSTOMER_ID row = k
             \<and> (fl_lt (AVG_SENTIMENT row) 0 \<or> TOTAL_ESCALATIONS row > 1)))
   \<and> (\<forall>row \<in> set (customer_segments fmean df). \<forall>row' \<in> set (customer_segments fmean df).
         SEG_CUSTOMER_ID row = SEG_CUSTOMER_ID row' \<longrightarrow> row = row')
   \<and> (\<forall>row \<in> set (customer_segments fmean df).
         SEG_CUSTOMER_ID row \<in> CUSTOMER_ID ` set df
         \<and> AVG_SENTIMENT row
             = Num (fmean (map SENTIMENT_SCORE (emails_of df (SEG_CUSTOMER_ID row))))
         \<and> TOTAL_ESCALATIONS row = escalations_of df (SEG_CUSTOMER_ID row))
   \<and> at_risk_mask \<lparr>SEG_CUSTOMER_ID = c, AVG_SENTIMENT = Num (-0.01), TOTAL_ESCALATIONS = 0,
        TOTAL_EMAILS = n, URGENT_EMAILS = u\<rparr>
   \<and> at_risk_mask \<lparr>SEG_CUSTOMER_ID = c, AVG_SENTIMENT = Num 0.5, TOTAL_ESCALATIONS = 2,
        TOTAL_EMAILS = n, URGENT_EMAILS = u\<rparr>"
proof -
  have c1: "k \<in> set (at_risk_customers (customer_segments fmean df))
      \<longleftrightarrow> (\<exists>row \<in> set (customer_segments fmean df).
             SEG_CUSTOMER_ID row = k
             \<and> (fl_lt (AVG_SENTIMENT row) 0 \<or> TOTAL_ESCALATIONS row > 1))"
    by (auto simp: at_risk_customers_def at_risk_mask_def)
  have c2: "\<forall>row \<in> set (customer_segments fmean df). \<forall>row' \<in> set (customer_segments fmean df).
         SEG_CUSTOMER_ID row = SEG_CUSTOMER_ID row' \<longrightarrow> row = row'"
    using segment_row_of_id by metis
  have c3: "\<forall>row \<in> set (customer_segments fmean df).
         SEG_CUSTOMER_ID row \<in> CUSTOMER_ID ` set df
         \<and> AVG_SENTIMENT row
             = Num (fmean (map SENTIMENT_SCORE (emails_of df (SEG_CUSTOMER_ID row))))
         \<and> TOTAL_ESCALATIONS row = escalations_of df (SEG_CUSTOMER_ID row)"
  proof
    fix row assume r: "row \<in> set (customer_segments fmean df)"
    let ?k = "SEG_CUSTOMER_ID row"
    from segment_row_of_id [OF r]
    have k: "?k \<in> CUSTOMER_ID ` set df"
      and row: "row = agg_group fmean (?k, emails_of df ?k)" by simp_all
    have ne: "emails_of df ?k \<noteq> []" using k by (rule emails_of_nonempty)
    have avg: "AVG_SENTIMENT (agg_group fmean (?k, emails_of df ?k))
                 = Num (fmean (map SENTIMENT_SCORE (emails_of df ?k)))"
      using ne by (simp add: agg_group_def series_mean_def)
    have esc: "TOTAL_ESCALATIONS (agg_group fmean (?k, emails_of df ?k)) = escalations_of df ?k"
      by (simp add: agg_group_def bool_sum_def escalations_of_def filter_map comp_def)
    show "?k \<in> CUSTOMER_ID ` set df
         \<and> AVG_SENTIMENT row = Num (fmean (map SENTIMENT_SCORE (emails_of df ?k)))
         \<and> TOTAL_ESCALATIONS row = escalations_of df ?k"
      using k avg esc row by metis
  qed
  have c4: "at_risk_mask \<lparr>SEG_CUSTOMER_ID = c, AVG_SENTIMENT = Num (-0.01),
        TOTAL_ESCALATIONS = 0, TOTAL_EMAILS = n, URGENT_EMAILS = u\<rparr>"
    by (simp add: at_risk_mask_def)
  have c5: "at_risk_mask \<lparr>SEG_CUSTOMER_ID = c, AVG_SENTIMENT = Num 0.5,
        TOTAL_ESCALATIONS = 2, TOTAL_EMAILS = n, URGENT_EMAILS = u\<rparr>"
    by (simp add: at_risk_mask_def)
  show ?thesis using c1 c2 c3 c4 c5 by blast
qed

theorem at_risk_customers_iff_witness:
  "customer_segments mean_exact
      [sample_email ''e1'' ''C2'' (-0.5) False ''low'',
       sample_email ''e2'' ''C1'' 0.5 False ''low'']
     = [\<lparr>SEG_CUSTOMER_ID = ''C1'', AVG_SENTIMENT = Num 0.5, TOTAL_ESCALATIONS = 0,
          TOTAL_EMAILS = 1, URGENT_EMAILS = 0\<rparr>,
        \<lparr>SEG_CUSTOMER_ID = ''C2'', AVG_SENTIMENT = Num (-0.5), TOTAL_ESCALATIONS = 0,
          TOTAL_EMAILS = 1, URGENT_EMAILS = 0\<rparr>]
   \<and> ''C2'' \<in> set (at_risk_customers (customer_segments mean_exact
      [sample_email ''e1'' ''C2'' (-0.5) False ''low'',
       sample_email ''e2'' ''C1'' 0.5 False ''low'']))
   \<and> ''C1'' \<notin> set (at_risk_customers (customer_segments mean_exact
      [sample_email ''e1'' ''C2'' (-0.5) False ''low'',
       sample_email ''e2'' ''C1'' 0.5 False ''low'']))"
proof -
  have t: "customer_segments mean_exact
      [sample_email ''e1'' ''C2'' (-0.5) False ''low'',
       sample_email ''e2'' ''C1'' 0.5 False ''low'']
     = [\<lparr>SEG_CUSTOMER_ID = ''C1'', AVG_SENTIMENT = Num 0.5, TOTAL_ESCALATIONS = 0,
          TOTAL_EMAILS = 1, URGENT_EMAILS = 0\<rparr>,
        \<lparr>SEG_CUSTOMER_ID = ''C2'', AVG_SENTIMENT = Num (-0.5), TOTAL_ESCALATIONS = 0,
          TOTAL_EMAILS = 1, URGENT_EMAILS = 0\<rparr>]"
    by (simp add: pipeline_defs)
  have in2: "''C2'' \<in> set (at_risk_customers (customer_segments mean_exact
      [sample_email ''e1'' ''C2'' (-0.5) False ''low'',
       sample_email ''e2'' ''C1'' 0.5 False ''low'']))"
    using at_risk_customers_iff [THEN conjunct1, of "''C2''" mean_exact
        "[sample_email ''e1'' ''C2'' (-0.5) False ''low'',
          sample_email ''e2'' ''C1'' 0.5 False ''low'']"]
    unfolding t by simp
  have out1: "''C1'' \<notin> set (at_risk_customers (customer_segments mean_exact
      [sample_email ''e1'' ''C2'' (-0.5) False ''low'',
       sample_email ''e2'' ''C1'' 0.5 False ''low'']))"
    using at_risk_customers_iff [THEN conjunct1, of "''C1''" mean_exact
        "[sample_email ''e1'' ''C2'' (-0.5) False ''low'',
          sample_email ''e2'' ''C1'' 0.5 False ''low'']"]
    unfolding t by simp
  show ?thesis using t in2 out1 by blast
qed

text \<open>
  C7, as the spec states it, fails: two at-risk customers met in the order B, A are listed
  as A, B.
\<close>

theorem at_risk_encounter_order_counterexample:
  "at_risk_customers (customer_segments mean_exact
      [sample_email ''e1'' ''B'' (-0.5) False ''low'',
       sample_email ''e2'' ''A'' (-0.5) False ''low'']) = [''A'', ''B'']
   \<and> spec_at_risk_in_encounter_order mean_exact
      [sample_email ''e1'' ''B'' (-0.5) False ''low'',
       sample_email ''e2'' ''A'' (-0.5) False ''low''] = [''B'', ''A'']
   \<and> at_risk_customers (customer_segments mean_exact
      [sample_email ''e1'' ''B'' (-0.5) False ''low'',
       sample_email ''e2'' ''A'' (-0.5) False ''low''])
     \<noteq> spec_at_risk_in_encounter_order mean_exact
      [sample_email ''e1'' ''B'' (-0.5) False ''low'',
       sample_email ''e2'' ''A'' (-0.5) False ''low'']"
  by (simp add: pipeline_defs spec_at_risk_in_encounter_order_def encounter_order_def)

text \<open>
  C7, amended. The at-risk list is in ascending order of the customer identifier and holds
  no identifier twice: it is the sorted list of the distinct customer identifiers of the
  record set, which is the identifier column of the grouped table, with exactly those
  identifiers kept whose row of the table passes the at-risk test. Severity plays no part
  in the order.
\<close>

theorem at_risk_customers_sorted_by_id:
  "sorted (at_risk_customers (customer_segments fmean df))
   \<and> distinct (at_risk_customers (customer_segments fmean df))
   \<and> map SEG_CUSTOMER_ID (customer_segments fmean df) = sort (remdups (map CUSTOMER_ID df))
   \<and> at_risk_customers (customer_segments fmean df)
       = filter (\<lambda>k. \<exists>row \<in> set (customer_segments fmean df).
                       SEG_CUSTOMER_ID row = k
                       \<and> (fl_lt (AVG_SENTIMENT row) 0 \<or> TOTAL_ESCALATIONS row > 1))
           (sort (remdups (map CUSTOMER_ID df)))"
proof (intro conjI)
  show "sorted (at_risk_customers (customer_segments fmean df))"
    using sorted_wrt_filter [of "(\<le>)" "sort (remdups (map CUSTOMER_ID df))"]
    by (simp add: at_risk_as_filter)
  show "distinct (at_risk_customers (customer_segments fmean df))"
    by (simp add: at_risk_as_filter)
  show "map SEG_CUSTOMER_ID (customer_segments fmean df) = sort (remdups (map CUSTOMER_ID df))"
    by (rule segment_ids)
  have "filter (\<lambda>k. at_risk_mask (agg_group fmean (k, emails_of df k)))
          (sort (remdups (map CUSTOMER_ID df)))
      = filter (\<lambda>k. \<exists>row \<in> set (customer_segments fmean df).
                       SEG_CUSTOMER_ID row = k \<and> at_risk_mask row)
          (sort (remdups (map CUSTOMER_ID df)))"
    by (rule filter_cong) (auto simp: row_with_id_iff)
  then show "at_risk_customers (customer_segments fmean df)
       = filter (\<lambda>k. \<exists>row \<in> set (customer_segments fmean df).
                       SEG_CUSTOMER_ID row = k
                       \<and> (fl_lt (AVG_SENTIMENT row) 0 \<or> TOTAL_ESCALATIONS row > 1))
           (sort (remdups (map CUSTOMER_ID df)))"
    by (simp add: at_risk_as_filter at_risk_mask_def)
qed

theorem at_risk_customers_sorted_by_id_witness:
  "sorted [''A'', ''B'']
   \<and> at_risk_customers (customer_segments mean_exact
      [sample_email ''e1'' ''B'' (-0.5) False ''low'',
       sample_email ''e2'' ''A'' (-0.5) False ''low'',
       sample_email ''e3'' ''C'' 0.5 False ''low'']) = [''A'', ''B'']
   \<and> sort (remdups (map CUSTOMER_ID
      [sample_email ''e1'' ''B'' (-0.5) False ''low'',
       sample_email ''e2'' ''A'' (-0.5) False ''low'',
       sample_email ''e3'' ''C'' 0.5 False ''low''])) = [''A'', ''B'', ''C'']"
proof -
  have t: "customer_segments mean_exact
      [sample_email ''e1'' ''B'' (-0.5) False ''low'',
       sample_email ''e2'' ''A'' (-0.5) False ''low'',
       sample_email ''e3'' ''C'' 0.5 False ''low'']
     = [\<lparr>SEG_CUSTOMER_ID = ''A'', AVG_SENTIMENT = Num (-0.5), TOTAL_ESCALATIONS = 0,
          TOTAL_EMAILS = 1, URGENT_EMAILS = 0\<rparr>,
        \<lparr>SEG_CUSTOMER_ID = ''B'', AVG_SENTIMENT = Num (-0.5), TOTAL_ESCALATIONS = 0,
          TOTAL_EMAILS = 1, URGENT_EMAILS = 0\<rparr>,
        \<lparr>SEG_CUSTOMER_ID = ''C'', AVG_SENTIMENT = Num 0.5, TOTAL_ESCALATIONS = 0,
          TOTAL_EMAILS = 1, URGENT_EMAILS = 0\<rparr>]"
    by (simp add: pipeline_defs)
  have k: "sort (remdups (map CUSTOMER_ID
      [sample_email ''e1'' ''B'' (-0.5) False ''low'',
       sample_email ''e2'' ''A'' (-0.5) False ''low'',
       sample_email ''e3'' ''C'' 0.5 False ''low''])) = [''A'', ''B'', ''C'']"
    by (simp add: sample_email_def)
  show ?thesis
    using at_risk_customers_sorted_by_id
      [of mean_exact "[sample_email ''e1'' ''B'' (-0.5) False ''low'',
          sample_email ''e2'' ''A'' (-0.5) False ''low'',
          sample_email ''e3'' ''C'' 0.5 False ''low'']"]
    unfolding t k by simp
qed

text \<open>
  C10. For a non-empty record set the grouped table is non-empty, each customer identifier
  of the record set appears in it exactly once, and every row counts at least one
  communication and has a numeric average; so every row that the page hands to the
  segmentation has at least one communication.
\<close>

theorem customer_segments_one_row_per_customer:
  assumes "df \<noteq> []"
  shows "customer_segments fmean df \<noteq> []
    \<and> distinct (map SEG_CUSTOMER_ID (customer_segments fmean df))
    \<and> set (map SEG_CUSTOMER_ID (customer_segments fmean df)) = CUSTOMER_ID ` set df
    \<and> (\<forall>row \<in> set (customer_segments fmean df).
          TOTAL_EMAILS row \<ge> 1 \<and> AVG_SENTIMENT row \<noteq> NaN)
    \<and> (\<forall>page. show_ai_insights fmean truediv df = Inr page
          \<longrightarrow> (\<forall>(row, label) \<in> set (segments page). TOTAL_EMAILS row \<ge> 1))"
proof -
  have ids: "set (map SEG_CUSTOMER_ID (customer_segments fmean df)) = CUSTOMER_ID ` set df"
    by (simp add: segment_ids)
  have ne: "customer_segments fmean df \<noteq> []"
  proof
    assume "customer_segments fmean df = []"
    then have "set (map SEG_CUSTOMER_ID (customer_segments fmean df)) = {}" by simp
    then show False using ids assms by simp
  qed
  have dist: "distinct (map SEG_CUSTOMER_ID (customer_segments fmean df))"
    by (simp add: segment_ids)
  have rows: "\<forall>row \<in> set (customer_segments fmean df).
          TOTAL_EMAILS row \<ge> 1 \<and> AVG_SENTIMENT row \<noteq> NaN"
  proof
    fix row assume "row \<in> set (customer_segments fmean df)"
    then obtain k where k: "k \<in> CUSTOMER_ID ` set df"
      and row: "row = agg_group fmean (k, emails_of df k)"
      by (auto simp: segments_as_map)
    have "emails_of df k \<noteq> []" using k by (rule emails_of_nonempty)
    then show "TOTAL_EMAILS row \<ge> 1 \<and> AVG_SENTIMENT row \<noteq> NaN"
      by (cases "emails_of df k") (simp_all add: row agg_group_def series_mean_def)
  qed
  have page: "\<forall>page. show_ai_insights fmean truediv df = Inr page
          \<longrightarrow> (\<forall>(row, label) \<in> set (segments page). TOTAL_EMAILS row \<ge> 1)"
    using rows by (auto simp: show_ai_insights_def split: sum.splits)
  show ?thesis using ne dist ids rows page by blast
qed

theorem customer_segments_one_row_per_customer_witness:
  "[sample_email ''e1'' ''B'' (-0.5) False ''low'',
    sample_email ''e2'' ''A'' 0.5 False ''low'',
    sample_email ''e3'' ''B'' 0.25 True ''immediate''] \<noteq> []
   \<and> map SEG_CUSTOMER_ID (customer_segments mean_exact
      [sample_email ''e1'' ''B'' (-0.5) False ''low'',
       sample_email ''e2'' ''A'' 0.5 False ''low'',
       sample_email ''e3'' ''B'' 0.25 True ''immediate'']) = [''A'', ''B'']
   \<and> map TOTAL_EMAILS (customer_segments mean_exact
      [sample_email ''e1'' ''B'' (-0.5) False ''low'',
       sample_email ''e2'' ''A'' 0.5 False ''low'',
       sample_email ''e3'' ''B'' 0.25 True ''immediate'']) = [1, 2]
   \<and> distinct (map SEG_CUSTOMER_ID (customer_segments mean_exact
      [sample_email ''e1'' ''B'' (-0.5) False ''low'',
       sample_email ''e2'' ''A'' 0.5 False ''low'',
       sample_email ''e3'' ''B'' 0.25 True ''immediate'']))"
  using customer_segments_one_row_per_customer
    [of "[sample_email ''e1'' ''B'' (-0.5) False ''low'',
          sample_email ''e2'' ''A'' 0.5 False ''low'',
          sample_email ''e3'' ''B'' 0.25 True ''immediate'']" mean_exact py_truediv]
  by (simp add: pipeline_defs)

subsection \<open>Properties of the guarded summary\<close>

text \<open>
  C3, as the spec states it, fails: over the empty record set the summary block reports
  no error to its caller. With Python's division the exception is caught and the info
  box is shown; with numpy's division the summary is built with \<open>NaN\<close> for the mean and
  for the rate and the fixed text is shown.
\<close>

theorem summary_empty_input_counterexample:
  "ai_summary_block mean_exact py_truediv [] = Inr (St_info info_unavailable)
   \<and> ai_summary_block mean_exact np_truediv [] = Inr St_markdown_ai_insights
   \<and> build_summary_data mean_exact np_truediv []
       = Inr \<lparr>total_emails = 0, avg_sentiment = NaN, escalation_rate = NaN,
              urgent_responses = 0\<rparr>"
  by (simp add: ai_summary_block_def ai_summary_body_def guarded_block_def try_except_def
      build_summary_data_def py_truediv_def np_truediv_def bool_sum_def series_mean_def)

text \<open>
  C3, amended. When the summary of the AI insights page is requested over an empty record
  set, no error reaches the caller. If the rate division raises, the exception is caught
  inside the block and the block's result is the fixed info message. If the division
  returns a quotient, the summary is built with zero records, \<open>NaN\<close> as the mean
  sentiment and one hundred times that quotient as the rate, and the block's result is
  the fixed insight text.
\<close>

theorem empty_input_behaviour:
  "(truediv 0 0 = Inl e
      \<longrightarrow> build_summary_data fmean truediv [] = Inl e
        \<and> ai_summary_block fmean truediv [] = Inr (St_info info_unavailable))
   \<and> (truediv 0 0 = Inr q
      \<longrightarrow> build_summary_data fmean truediv []
            = Inr \<lparr>total_emails = 0, avg_sentiment = NaN, escalation_rate = fl_times q 100,
                   urgent_responses = 0\<rparr>
        \<and> ai_summary_block fmean truediv [] = Inr St_markdown_ai_insights)"
  by (simp add: ai_summary_block_def ai_summary_body_def guarded_block_def try_except_def
      build_summary_data_def bool_sum_def series_mean_def)

theorem empty_input_behaviour_witness:
  "py_truediv 0 0 = Inl ZeroDivisionError
   \<and> ai_summary_block mean_exact py_truediv [] = Inr (St_info info_unavailable)
   \<and> np_truediv 0 0 = Inr NaN
   \<and> build_summary_data mean_exact np_truediv []
       = Inr \<lparr>total_emails = 0, avg_sentiment = NaN, escalation_rate = NaN,
              urgent_responses = 0\<rparr>
   \<and> ai_summary_block mean_exact np_truediv [] = Inr St_markdown_ai_insights"
proof -
  have p: "py_truediv 0 0 = Inl ZeroDivisionError" by (simp add: py_truediv_def)
  have n: "np_truediv 0 0 = Inr NaN" by (simp add: np_truediv_def)
  from empty_input_behaviour [of py_truediv ZeroDivisionError mean_exact NaN]
    empty_input_behaviour [of np_truediv ZeroDivisionError mean_exact NaN] p n
  show ?thesis by simp
qed

subsection \<open>Properties of the customer search\<close>

text \<open>
  C9. For every search term, when the warehouse query raises, \<open>search_customers\<close> returns
  the empty table and raises nothing; the search page then shows exactly what it shows
  for a warehouse that answers the same query with a table of no rows.
\<close>

theorem search_customers_swallows_failure:
  assumes "session_sql (search_query search_term) = Inl e"
  shows "search_customers session_sql search_term = pd_DataFrame
    \<and> df_empty (search_customers session_sql search_term)
    \<and> (\<forall>other d. other (search_query search_term) = Inr d \<and> rows d = []
          \<longrightarrow> show_customer_search session_sql search_term
              = show_customer_search other search_term)"
proof -
  have r: "search_customers session_sql search_term = pd_DataFrame"
    using assms by (simp add: search_customers_def)
  have e: "df_empty (search_customers session_sql search_term)"
    by (simp add: r pd_DataFrame_def df_empty_def)
  have "show_customer_search session_sql search_term = show_customer_search other search_term"
    if "other (search_query search_term) = Inr d" and "rows d = []" for other d
    using that assms
    by (simp add: show_customer_search_def search_customers_def df_empty_def pd_DataFrame_def)
  then show ?thesis using r e by blast
qed

theorem search_customers_swallows_failure_witness:
  "(\<lambda>q. Inl SnowparkSQLException) (search_query ''bob'') = Inl SnowparkSQLException
   \<and> search_customers (\<lambda>q. Inl SnowparkSQLException) ''bob'' = pd_DataFrame
   \<and> show_customer_search (\<lambda>q. Inl SnowparkSQLException) ''bob'' = Info_no_results
   \<and> show_customer_search
        (\<lambda>q. Inr \<lparr>columns = [''EMAIL_ID'', ''CUSTOMER_ID''], rows = []\<rparr>) ''bob''
       = Info_no_results"
proof -
  have h: "(\<lambda>q. Inl SnowparkSQLException) (search_query ''bob'')
             = (Inl SnowparkSQLException :: py_exc + dataframe)"
    by simp
  have o: "(\<lambda>q. Inr \<lparr>columns = [''EMAIL_ID'', ''CUSTOMER_ID''], rows = []\<rparr>) (search_query ''bob'')
             = (Inr \<lparr>columns = [''EMAIL_ID'', ''CUSTOMER_ID''], rows = []\<rparr> :: py_exc + dataframe)
           \<and> rows \<lparr>columns = [''EMAIL_ID'', ''CUSTOMER_ID''], rows = []\<rparr> = []"
    by simp
  have s: "show_customer_search
        (\<lambda>q. Inr \<lparr>columns = [''EMAIL_ID'', ''CUSTOMER_ID''], rows = []\<rparr>) ''bob''
       = Info_no_results"
    by (simp add: show_customer_search_def search_customers_def df_empty_def)
  from search_customers_swallows_failure [OF h] o s show ?thesis
    by (metis (no_types, lifting))
qed


end
